theory Spec2Isabelle
  imports
    Complex_Main
    "HOL-Library.Sublist"
    "HOL-Library.Char_ord"
    "HOL-Library.List_Lexorder"
    "HOL-Library.Product_Lexorder"
begin

section \<open>The dashboard component of src/frontend/src/App.jsx\<close>

text \<open>
  The repository is one React component, \<open>App\<close>. Its state is five \<open>useState\<close> cells
  (\<open>activeTab\<close>, \<open>isSystemRunning\<close>, \<open>pendingPreviews\<close>, \<open>channels\<close>, \<open>systemStats\<close>),
  one mount effect that loads three previews, and three handlers (\<open>toggleSystem\<close>,
  \<open>approveContent\<close>, \<open>rejectContent\<close>). The embedding below is that state as a record and
  the handlers as functions from the state at a render to the outcome of the call.

  Conventions.
  \<^item> Identifiers, platform tags, times of day and media kinds are ASCII and are of type
    \<open>string\<close>. The Arabic display texts are lists of Unicode code points (type \<open>utext\<close>);
    all of them lie in the basic plane, so the code points are also the UTF-16 code units
    of the JavaScript strings.
  \<^item> The counters are integers (every one is far below \<open>2^53\<close>, where binary64 is
    exact). The revenues are not integers: they are values of type \<open>number\<close>, the
    binary64 value that the literal denotes.
  \<^item> Both object shapes of the source have a field \<open>id\<close>; they are \<open>channel_id\<close> and
    \<open>item_id\<close> here, \<open>name\<close> is \<open>channel_name\<close>, the preview's \<open>content\<close> is
    \<open>content_body\<close>, and the three fields of \<open>systemStats\<close> whose names occur in another
    object carry the prefix \<open>stats_\<close>.
\<close>

subsection \<open>JavaScript numbers\<close>

text \<open>
  A Number is a binary64 value: a finite one is held as the rational it is equal to, the
  others are the two infinities and NaN. (The two zeros are one value here; they are equal
  under \<open>===\<close> and no negative zero occurs. On finite values HOL's equality is
  \<open>===\<close>.)
\<close>

datatype number = Finite rat | PosInfinity | NegInfinity | NaN

text \<open>The number of binary digits of a natural number.\<close>

fun bitLength :: "nat \<Rightarrow> nat" where
  "bitLength n = (if n = 0 then 0 else Suc (bitLength (n div 2)))"

declare bitLength.simps [simp del]

text \<open>
  For \<open>x > 0\<close>, the exponent \<open>e\<close> with \<open>2^e \<le> x < 2^(e+1)\<close>: read off the integer
  part when \<open>x \<ge> 1\<close>, and off the reciprocal otherwise.
\<close>

definition floorLog2 :: "rat \<Rightarrow> int" where
  "floorLog2 x =
     (if 1 \<le> x then int (bitLength (nat \<lfloor>x\<rfloor>)) - 1
      else - int (bitLength (nat (\<lceil>1 / x\<rceil> - 1))))"

definition pow2 :: "int \<Rightarrow> rat" where
  "pow2 k = (if 0 \<le> k then 2 ^ nat k else 1 / 2 ^ nat (- k))"

definition roundTiesToEven :: "rat \<Rightarrow> int" where
  "roundTiesToEven q =
     (let f = \<lfloor>q\<rfloor>; r = q - of_int f
      in if r < 1 / 2 then f else if 1 / 2 < r then f + 1 else if even f then f else f + 1)"

text \<open>
  The Number value of a real: the nearest binary64 value, ties to the even significand.
  The spacing of the binary64 values around \<open>x\<close> is \<open>2^(e - 52)\<close> for the exponent
  \<open>e\<close> of \<open>x\<close>, and \<open>2^(-1074)\<close> below the normal range; a result of magnitude
  \<open>2^1024\<close> or more is an infinity.
\<close>

definition toNumber :: "rat \<Rightarrow> number" where
  "toNumber x =
     (if x = 0 then Finite 0
      else
        let u = pow2 (max (floorLog2 \<bar>x\<bar>) (- 1022) - 52);
            y = of_int (roundTiesToEven (x / u)) * u
        in if y \<noteq> 0 \<and> 1024 \<le> floorLog2 \<bar>y\<bar>
           then (if 0 < y then PosInfinity else NegInfinity)
           else Finite y)"

text \<open>The operator \<open>+\<close> on two Numbers: the exact sum, rounded.\<close>

fun numberAdd :: "number \<Rightarrow> number \<Rightarrow> number" where
  "numberAdd (Finite a) (Finite b) = toNumber (a + b)"
| "numberAdd NaN _ = NaN"
| "numberAdd _ NaN = NaN"
| "numberAdd PosInfinity NegInfinity = NaN"
| "numberAdd NegInfinity PosInfinity = NaN"
| "numberAdd PosInfinity _ = PosInfinity"
| "numberAdd _ PosInfinity = PosInfinity"
| "numberAdd NegInfinity _ = NegInfinity"
| "numberAdd _ NegInfinity = NegInfinity"

subsection \<open>Data\<close>

type_synonym utext = "nat list"

record channel =
  channel_id :: string
  channel_name :: utext
  platform :: string
  status :: string
  followers :: int
  todayViews :: int
  revenue :: number
  contentGenerated :: int
  publishedToday :: int

record preview =
  item_id :: string
  channelId :: string
  title :: utext
  content_body :: utext
  scheduledTime :: string
  timeLeft :: utext
  mediaType :: string

record stats =
  totalViews :: int
  totalRevenue :: number
  totalFollowers :: int
  stats_contentGenerated :: int
  stats_publishedToday :: int
  stats_pendingPreviews :: int
  scheduledContent :: int

text \<open>
  The state of the component, and with it the lines written by \<open>console.log\<close>, which is
  the only effect of the handlers outside the React state.
\<close>

record app =
  activeTab :: string
  isSystemRunning :: bool
  pendingPreviews :: "preview list"
  channels :: "channel list"
  systemStats :: stats
  console :: "string list"

text \<open>
  A handler either throws or returns a JavaScript value together with the next state. The
  error kinds are the two the specification names for commands; no handler of the source
  has a \<open>throw\<close>, so none of them is ever produced.
\<close>

datatype error = NotFound | InvalidState

datatype jsval = Undefined | Boolean bool

type_synonym outcome = "error + (jsval \<times> app)"

subsection \<open>Initial values (lines 31 to 100)\<close>

definition horror_stories :: channel where
  "horror_stories =
    \<lparr> channel_id = ''horror_stories'',
      channel_name = [1602, 1589, 1589, 32, 1575, 1604, 1585, 1593, 1576],
      platform = ''TikTok'', status = ''active'',
      followers = 15420, todayViews = 8750, revenue = toNumber 245.50,
      contentGenerated = 12, publishedToday = 3 \<rparr>"

definition islamic_stories :: channel where
  "islamic_stories =
    \<lparr> channel_id = ''islamic_stories'',
      channel_name = [1575, 1604, 1602, 1589, 1589, 32, 1575, 1604, 1573, 1587, 1604, 1575,
        1605, 1610, 1577],
      platform = ''TikTok'', status = ''active'',
      followers = 22100, todayViews = 12300, revenue = toNumber 380.75,
      contentGenerated = 15, publishedToday = 4 \<rparr>"

definition home_design :: channel where
  "home_design =
    \<lparr> channel_id = ''home_design'',
      channel_name = [1578, 1589, 1605, 1610, 1605, 32, 1575, 1604, 1605, 1606, 1575, 1586,
        1604, 32, 1608, 1575, 1604, 1593, 1602, 1575, 1585, 1575, 1578],
      platform = ''YouTube'', status = ''active'',
      followers = 8900, todayViews = 5600, revenue = toNumber 195.25,
      contentGenerated = 8, publishedToday = 2 \<rparr>"

definition motivation :: channel where
  "motivation =
    \<lparr> channel_id = ''motivation'',
      channel_name = [1575, 1604, 1578, 1581, 1601, 1610, 1586, 32, 1608, 1575, 1604, 1575,
        1602, 1578, 1576, 1575, 1587, 1575, 1578],
      platform = ''TikTok'', status = ''active'',
      followers = 31500, todayViews = 18900, revenue = toNumber 520.80,
      contentGenerated = 20, publishedToday = 5 \<rparr>"

definition ai_chef :: channel where
  "ai_chef =
    \<lparr> channel_id = ''ai_chef'',
      channel_name = [65, 73, 32, 67, 104, 101, 102],
      platform = ''YouTube'', status = ''active'',
      followers = 12750, todayViews = 9200, revenue = toNumber 310.40,
      contentGenerated = 10, publishedToday = 3 \<rparr>"

definition initialChannels :: "channel list" where
  "initialChannels = [horror_stories, islamic_stories, home_design, motivation, ai_chef]"

definition initialStats :: stats where
  "initialStats =
    \<lparr> totalViews = 54750, totalRevenue = toNumber 1652.70, totalFollowers = 90670,
      stats_contentGenerated = 65, stats_publishedToday = 17,
      stats_pendingPreviews = 8, scheduledContent = 25 \<rparr>"

definition initialState :: app where
  "initialState =
    \<lparr> activeTab = ''dashboard'', isSystemRunning = True, pendingPreviews = [],
      channels = initialChannels, systemStats = initialStats, console = [] \<rparr>"

subsection \<open>The mount effect (lines 102 to 133)\<close>

definition preview_1 :: preview where
  "preview_1 =
    \<lparr> item_id = ''preview_1'', channelId = ''horror_stories'',
      title = [1602, 1589, 1577, 32, 1575, 1604, 1583, 1605, 1610, 1577, 32, 1575, 1604,
        1605, 1587, 1603, 1608, 1606, 1577],
      content_body = [1601, 1610, 32, 1605, 1606, 1586, 1604, 32, 1602, 1583, 1610, 1605,
        32, 1576, 1575, 1604, 1585, 1610, 1601, 1548, 32, 1608, 1580, 1583, 1578, 32, 1587,
        1575, 1585, 1577, 32, 1583, 1605, 1610, 1577, 32, 1602, 1583, 1610, 1605, 1577, 32,
        1601, 1610, 32, 1575, 1604, 1593, 1604, 1610, 1577, 46, 46, 46],
      scheduledTime = ''22:00'',
      timeLeft = [52, 53, 32, 1583, 1602, 1610, 1602, 1577],
      mediaType = ''video'' \<rparr>"

definition preview_2 :: preview where
  "preview_2 =
    \<lparr> item_id = ''preview_2'', channelId = ''ai_chef'',
      title = [1608, 1589, 1601, 1577, 32, 1575, 1604, 1605, 1593, 1603, 1585, 1608, 1606,
        1577, 32, 1575, 1604, 1573, 1610, 1591, 1575, 1604, 1610, 1577],
      content_body = [1575, 1604, 1610, 1608, 1605, 32, 1587, 1606, 1578, 1593, 1604, 1605,
        32, 1591, 1585, 1610, 1602, 1577, 32, 1593, 1605, 1604, 32, 1575, 1604, 1605, 1593,
        1603, 1585, 1608, 1606, 1577, 32, 1575, 1604, 1573, 1610, 1591, 1575, 1604, 1610,
        1577, 32, 1575, 1604, 1571, 1589, 1604, 1610, 1577, 46, 46, 46],
      scheduledTime = ''22:15'',
      timeLeft = [54, 48, 32, 1583, 1602, 1610, 1602, 1577],
      mediaType = ''video'' \<rparr>"

definition preview_3 :: preview where
  "preview_3 =
    \<lparr> item_id = ''preview_3'', channelId = ''motivation'',
      title = [1575, 1602, 1578, 1576, 1575, 1587, 32, 1593, 1606, 32, 1575, 1604, 1606,
        1580, 1575, 1581],
      content_body = [1575, 1604, 1606, 1580, 1575, 1581, 32, 1604, 1610, 1587, 32, 1606,
        1607, 1575, 1610, 1577, 32, 1575, 1604, 1591, 1585, 1610, 1602, 1548, 32, 1608,
        1575, 1604, 1601, 1588, 1604, 32, 1604, 1610, 1587, 32, 1606, 1607, 1575, 1610,
        1577, 32, 1575, 1604, 1593, 1575, 1604, 1605, 46, 46, 46],
      scheduledTime = ''22:30'',
      timeLeft = [55, 53, 32, 1583, 1602, 1610, 1602, 1577],
      mediaType = ''image'' \<rparr>"

text \<open>\<open>useEffect(() => { setPendingPreviews([...]) }, [])\<close>: the list is replaced.\<close>

definition mountEffect :: "app \<Rightarrow> outcome" where
  "mountEffect s = Inr (Undefined, s\<lparr>pendingPreviews := [preview_1, preview_2, preview_3]\<rparr>)"

definition mountedState :: app where
  "mountedState = initialState\<lparr>pendingPreviews := [preview_1, preview_2, preview_3]\<rparr>"

subsection \<open>The handlers (lines 135 to 149)\<close>

text \<open>
  Each handler has a block body without \<open>return\<close>, so the value it returns is
  \<open>undefined\<close>. \<open>toggleSystem\<close> writes the negation of the flag of the render it was
  created in; between two renders that is the current flag.
\<close>

definition toggleSystem :: "app \<Rightarrow> outcome" where
  "toggleSystem s = Inr (Undefined, s\<lparr>isSystemRunning := \<not> isSystemRunning s\<rparr>)"

definition approveContent :: "string \<Rightarrow> app \<Rightarrow> outcome" where
  "approveContent contentId s =
     Inr (Undefined,
       s\<lparr>pendingPreviews := filter (\<lambda>item. item_id item \<noteq> contentId) (pendingPreviews s),
         console := console s @ [''Approved content: '' @ contentId]\<rparr>)"

definition rejectContent :: "string \<Rightarrow> app \<Rightarrow> outcome" where
  "rejectContent contentId s =
     Inr (Undefined,
       s\<lparr>pendingPreviews := filter (\<lambda>item. item_id item \<noteq> contentId) (pendingPreviews s),
         console := console s @ [''Rejected content: '' @ contentId]\<rparr>)"

text \<open>\<open>onValueChange={setActiveTab}\<close> (line 193).\<close>

definition setActiveTab :: "string \<Rightarrow> app \<Rightarrow> outcome" where
  "setActiveTab tab s = Inr (Undefined, s\<lparr>activeTab := tab\<rparr>)"

text \<open>\<open>channels.find(c => c.id === content.channelId)\<close> (line 394).\<close>

definition findChannel :: "channel list \<Rightarrow> string \<Rightarrow> channel option" where
  "findChannel cs cid = find (\<lambda>c. channel_id c = cid) cs"

subsection \<open>Reachable states\<close>

text \<open>
  Everything that writes the state: the mount effect and the four callbacks wired to the
  page. A state is reachable when a sequence of them leads to it from the initial values.
  The mount effect runs once, after the first render; allowing it at any point only adds
  states.
\<close>

datatype event =
  Mount
  | ToggleSystem
  | ApproveContent string
  | RejectContent string
  | SetActiveTab string

fun dispatch :: "event \<Rightarrow> app \<Rightarrow> outcome" where
  "dispatch Mount s = mountEffect s"
| "dispatch ToggleSystem s = toggleSystem s"
| "dispatch (ApproveContent contentId) s = approveContent contentId s"
| "dispatch (RejectContent contentId) s = rejectContent contentId s"
| "dispatch (SetActiveTab tab) s = setActiveTab tab s"

inductive reachable :: "app \<Rightarrow> bool" where
  reachable_init: "reachable initialState"
| reachable_step: "reachable s \<Longrightarrow> dispatch e s = Inr (v, s') \<Longrightarrow> reachable s'"

text \<open>The same, run on a list of events; a thrown error would stop the run.\<close>

fun run :: "event list \<Rightarrow> app \<Rightarrow> error + app" where
  "run [] s = Inr s"
| "run (e # es) s = (case dispatch e s of Inl err \<Rightarrow> Inl err | Inr (v, s') \<Rightarrow> run es s')"

subsection \<open>Recomputing the statistics\<close>

text \<open>
  The recomputation of the statistics as the specification words it; the source has no
  such function (\<open>setSystemStats\<close> is never called). A total is the sum of one field
  over the channel list, the pending counter is the number of pending items. The revenues
  are Numbers, so their sum is the one the program would compute: \<open>+\<close> from 0 along the
  channel list, as \<open>channels.reduce((sum, c) => sum + c.revenue, 0)\<close> does.
\<close>

definition recomputeTotal_spec :: "(channel \<Rightarrow> int) \<Rightarrow> app \<Rightarrow> int" where
  "recomputeTotal_spec field s = sum_list (map field (channels s))"

definition recomputeRevenue_spec :: "app \<Rightarrow> number" where
  "recomputeRevenue_spec s = foldl numberAdd (Finite 0) (map revenue (channels s))"

definition recomputePending_spec :: "app \<Rightarrow> int" where
  "recomputePending_spec s = int (length (pendingPreviews s))"

section \<open>Basic facts\<close>

lemmas handler_defs =
  mountEffect_def toggleSystem_def approveContent_def rejectContent_def setActiveTab_def

lemmas channel_defs =
  initialChannels_def horror_stories_def islamic_stories_def home_design_def motivation_def
  ai_chef_def

lemmas preview_defs = preview_1_def preview_2_def preview_3_def

text \<open>No event throws, and every event returns \<open>undefined\<close>.\<close>

lemma dispatch_returns: "\<exists>s'. dispatch e s = Inr (Undefined, s')"
  by (cases e) (simp_all add: handler_defs)

lemma dispatch_channels:
  "dispatch e s = Inr (v, s') \<Longrightarrow> channels s' = channels s \<and> systemStats s' = systemStats s"
  by (cases e) (auto simp: handler_defs)

text \<open>An event either reloads the three previews or keeps a filtered part of the list.\<close>

lemma dispatch_pending:
  "dispatch e s = Inr (v, s') \<Longrightarrow>
     pendingPreviews s' = [preview_1, preview_2, preview_3]
     \<or> (\<exists>P. pendingPreviews s' = filter P (pendingPreviews s))"
proof (cases e)
  case Mount
  assume "dispatch e s = Inr (v, s')"
  with Mount show ?thesis by (auto simp: handler_defs)
next
  case ToggleSystem
  assume "dispatch e s = Inr (v, s')"
  with ToggleSystem have "pendingPreviews s' = filter (\<lambda>_. True) (pendingPreviews s)"
    by (auto simp: handler_defs)
  then show ?thesis by blast
next
  case (ApproveContent c)
  assume "dispatch e s = Inr (v, s')"
  with ApproveContent show ?thesis by (auto simp: handler_defs)
next
  case (RejectContent c)
  assume "dispatch e s = Inr (v, s')"
  with RejectContent show ?thesis by (auto simp: handler_defs)
next
  case (SetActiveTab t)
  assume "dispatch e s = Inr (v, s')"
  with SetActiveTab have "pendingPreviews s' = filter (\<lambda>_. True) (pendingPreviews s)"
    by (auto simp: handler_defs)
  then show ?thesis by blast
qed

lemma reachable_channels: "reachable s \<Longrightarrow> channels s = initialChannels"
  by (induction rule: reachable.induct) (auto simp: initialState_def dest: dispatch_channels)

lemma reachable_stats: "reachable s \<Longrightarrow> systemStats s = initialStats"
  by (induction rule: reachable.induct) (auto simp: initialState_def dest: dispatch_channels)

lemma run_reachable: "reachable s \<Longrightarrow> run es s = Inr s' \<Longrightarrow> reachable s'"
proof (induction es arbitrary: s)
  case Nil
  then show ?case by simp
next
  case (Cons e es)
  then show ?case
    by (auto split: sum.splits intro: reachable_step)
qed

lemma reachable_mounted: "reachable mountedState"
proof -
  have "dispatch Mount initialState = Inr (Undefined, mountedState)"
    by (simp add: mountEffect_def mountedState_def)
  with reachable_init show ?thesis by (rule reachable_step)
qed

text \<open>
  The three loaded previews are in strictly ascending order of their \<open>scheduledTime\<close>
  strings (\<open>22:00\<close>, \<open>22:15\<close>, \<open>22:30\<close>; strings compare lexicographically, which for
  zero-padded times of day is the order of the times).
\<close>

lemma time_order:
  "scheduledTime preview_1 < scheduledTime preview_2"
  "scheduledTime preview_2 < scheduledTime preview_3"
  "scheduledTime preview_1 < scheduledTime preview_3"
  by (simp_all add: preview_defs)

lemma reachable_pending_subset:
  "reachable s \<Longrightarrow> set (pendingPreviews s) \<subseteq> {preview_1, preview_2, preview_3}"
proof (induction rule: reachable.induct)
  case reachable_init
  show ?case by (simp add: initialState_def)
next
  case (reachable_step s e v s')
  from dispatch_pending [OF reachable_step.hyps(2)] reachable_step.IH
  show ?case by auto
qed

lemma reachable_strictly_ascending:
  "reachable s \<Longrightarrow>
     sorted_wrt (\<lambda>a b. scheduledTime a < scheduledTime b) (pendingPreviews s)"
proof (induction rule: reachable.induct)
  case reachable_init
  show ?case by (simp add: initialState_def)
next
  case (reachable_step s e v s')
  from dispatch_pending [OF reachable_step.hyps(2)] reachable_step.IH
  show ?case by (auto simp: time_order sorted_wrt_filter)
qed

lemma reachable_distinct_ids: "reachable s \<Longrightarrow> distinct (map item_id (pendingPreviews s))"
proof (induction rule: reachable.induct)
  case reachable_init
  show ?case by (simp add: initialState_def)
next
  case (reachable_step s e v s')
  from dispatch_pending [OF reachable_step.hyps(2)] reachable_step.IH
  show ?case by (auto simp: preview_defs distinct_map_filter)
qed

lemma filter_absent:
  "contentId \<notin> item_id ` set xs \<Longrightarrow> filter (\<lambda>item. item_id item \<noteq> contentId) xs = xs"
  by (induction xs) auto

lemma length_filter_distinct_id:
  "distinct (map item_id xs) \<Longrightarrow> contentId \<in> item_id ` set xs \<Longrightarrow>
     Suc (length (filter (\<lambda>item. item_id item \<noteq> contentId) xs)) = length xs"
proof (induction xs)
  case Nil
  then show ?case by simp
next
  case (Cons x xs)
  show ?case
  proof (cases "item_id x = contentId")
    case True
    with Cons.prems have "contentId \<notin> item_id ` set xs" by auto
    with True show ?thesis by (simp add: filter_absent)
  next
    case False
    with Cons show ?thesis by auto
  qed
qed

text \<open>
  A state three events away from the start: mounted, \<open>preview_1\<close> approved, system
  paused.
\<close>

lemma run_example:
  "run [Mount, ApproveContent ''preview_1'', ToggleSystem] initialState =
     Inr (initialState\<lparr>isSystemRunning := False, pendingPreviews := [preview_2, preview_3],
            console := [''Approved content: preview_1'']\<rparr>)"
  by (simp add: handler_defs initialState_def preview_defs)

lemma reachable_example:
  "reachable (initialState\<lparr>isSystemRunning := False,
      pendingPreviews := [preview_2, preview_3],
      console := [''Approved content: preview_1'']\<rparr>)"
  by (rule run_reachable [OF reachable_init run_example])

section \<open>The claims\<close>

subsection \<open>C1: rejecting after approving\<close>

text \<open>
  C1, as stated: if \<open>approve(id)\<close> succeeds, a following \<open>reject(id)\<close> fails with
  \<open>InvalidState\<close>. The source has no error path: after \<open>preview_1\<close> is approved in the
  mounted state, rejecting it returns normally.
\<close>

theorem reject_after_approve_counterexample:
  "\<not> isl (approveContent ''preview_1'' mountedState) \<and>
   rejectContent ''preview_1'' (snd (projr (approveContent ''preview_1'' mountedState)))
     \<noteq> Inl InvalidState"
  by (simp add: approveContent_def rejectContent_def)

text \<open>
  C1, amended: for every item id and every state, if \<open>approveContent(id)\<close> returns, then
  \<open>rejectContent(id)\<close> on the resulting state returns \<open>undefined\<close> without any error
  and leaves the pending list, the channels, the statistics, the run flag and the active
  tab as they are: the resulting state differs from the one before the second call only by
  the line written to the console.
\<close>

theorem reject_after_approve:
  assumes "approveContent contentId s = Inr (v, s')"
  shows "rejectContent contentId s' =
           Inr (Undefined, s'\<lparr>console := console s' @ [''Rejected content: '' @ contentId]\<rparr>)"
proof -
  from assms
  have "pendingPreviews s' = filter (\<lambda>item. item_id item \<noteq> contentId) (pendingPreviews s)"
    by (auto simp: approveContent_def)
  then have "filter (\<lambda>item. item_id item \<noteq> contentId) (pendingPreviews s') = pendingPreviews s'"
    by simp
  then show ?thesis by (simp add: rejectContent_def)
qed

theorem reject_after_approve_witness:
  "approveContent ''preview_1'' mountedState =
     Inr (Undefined, mountedState\<lparr>pendingPreviews := [preview_2, preview_3],
            console := [''Approved content: preview_1'']\<rparr>) \<and>
   rejectContent ''preview_1''
     (mountedState\<lparr>pendingPreviews := [preview_2, preview_3],
        console := [''Approved content: preview_1'']\<rparr>) =
     Inr (Undefined, mountedState\<lparr>pendingPreviews := [preview_2, preview_3],
            console := [''Approved content: preview_1'', ''Rejected content: preview_1'']\<rparr>)"
proof -
  have a: "approveContent ''preview_1'' mountedState =
     Inr (Undefined, mountedState\<lparr>pendingPreviews := [preview_2, preview_3],
            console := [''Approved content: preview_1'']\<rparr>)"
    by (simp add: approveContent_def mountedState_def initialState_def preview_defs)
  from a reject_after_approve [OF a] show ?thesis by simp
qed

subsection \<open>C2: the statistics as a projection\<close>

text \<open>The binary64 values of the five revenue literals and of the stored total.\<close>

lemma revenue_values:
  "map revenue initialChannels =
     [Finite (491 / 2), Finite (1523 / 4), Finite (781 / 4),
      Finite (2290502622982963 / 4398046511104),
      Finite (2730307274093363 / 8796093022208)]"
  by code_simp

lemma stored_revenue:
  "totalRevenue initialStats = Finite (7268651468901581 / 4398046511104)"
  by code_simp

text \<open>
  Adding them along the list from 0: the first four sums are exact, and the last falls
  half-way between two binary64 values and goes to the even one, which is the neighbour
  below the stored total.
\<close>

lemma revenue_sum:
  "foldl numberAdd (Finite 0)
     [Finite (491 / 2), Finite (1523 / 4), Finite (781 / 4),
      Finite (2290502622982963 / 4398046511104),
      Finite (2730307274093363 / 8796093022208)]
   = Finite (1817162867225395 / 1099511627776)"
  by code_simp

text \<open>The exact sum of the five held values is not the stored value either.\<close>

lemma revenue_exact_sum:
  "sum_list [491 / 2, 1523 / 4, 781 / 4, 2290502622982963 / 4398046511104,
      2730307274093363 / 8796093022208]
   = (7268651468901581 / 4398046511104 :: rat) - 1 / 8796093022208"
  by simp

lemma recomputeRevenue_initialChannels:
  "channels s = initialChannels \<Longrightarrow>
     recomputeRevenue_spec s = Finite (1817162867225395 / 1099511627776)"
  by (simp only: recomputeRevenue_spec_def revenue_values revenue_sum)

text \<open>
  C2, as stated: recomputing the statistics from the channels and the content items gives
  the stored values, the pending counter and the revenue included. In the mounted state
  the stored pending counter is 8 and three items are pending; and the sum of the five
  revenues is 1652.6999999999998 (the binary64 value below), while the stored total is
  the binary64 value of 1652.70.
\<close>

theorem stats_projection_counterexample:
  "stats_pendingPreviews (systemStats mountedState) = 8 \<and>
   recomputePending_spec mountedState = 3 \<and>
   recomputeRevenue_spec mountedState = Finite (1817162867225395 / 1099511627776) \<and>
   totalRevenue (systemStats mountedState) = Finite (7268651468901581 / 4398046511104) \<and>
   recomputeRevenue_spec mountedState \<noteq> totalRevenue (systemStats mountedState)"
proof -
  have c: "channels mountedState = initialChannels"
    and t: "systemStats mountedState = initialStats"
    by (simp_all add: mountedState_def initialState_def)
  have p: "stats_pendingPreviews (systemStats mountedState) = 8"
    "recomputePending_spec mountedState = 3"
    by (simp_all add: mountedState_def initialState_def initialStats_def
          recomputePending_spec_def)
  note r = recomputeRevenue_initialChannels [OF c]
  have st: "totalRevenue (systemStats mountedState)
              = Finite (7268651468901581 / 4398046511104)"
    by (simp only: t stored_revenue)
  from p r st show ?thesis by simp
qed

lemma initial_sums:
  "sum_list (map todayViews initialChannels) = totalViews initialStats"
  "sum_list (map followers initialChannels) = totalFollowers initialStats"
  "sum_list (map contentGenerated initialChannels) = stats_contentGenerated initialStats"
  "sum_list (map publishedToday initialChannels) = stats_publishedToday initialStats"
  by (simp_all add: channel_defs initialStats_def)

text \<open>
  C2, amended: in every reachable state, recomputing \<open>totalViews\<close>, \<open>totalFollowers\<close>,
  \<open>contentGenerated\<close> and \<open>publishedToday\<close> from the channels gives exactly the stored
  values: each equals the sum of its field over all channels. Nothing is said about the
  stored pending counter and the stored revenue total.
\<close>

theorem stats_projection:
  assumes "reachable s"
  shows "recomputeTotal_spec todayViews s = totalViews (systemStats s)
       \<and> recomputeTotal_spec followers s = totalFollowers (systemStats s)
       \<and> recomputeTotal_spec contentGenerated s = stats_contentGenerated (systemStats s)
       \<and> recomputeTotal_spec publishedToday s = stats_publishedToday (systemStats s)"
  using assms
  by (simp add: recomputeTotal_spec_def reachable_channels reachable_stats initial_sums)

theorem stats_projection_witness:
  "reachable (initialState\<lparr>isSystemRunning := False,
      pendingPreviews := [preview_2, preview_3],
      console := [''Approved content: preview_1'']\<rparr>) \<and>
   recomputeTotal_spec todayViews (initialState\<lparr>isSystemRunning := False,
      pendingPreviews := [preview_2, preview_3],
      console := [''Approved content: preview_1'']\<rparr>) = 54750 \<and>
   recomputeTotal_spec followers (initialState\<lparr>isSystemRunning := False,
      pendingPreviews := [preview_2, preview_3],
      console := [''Approved content: preview_1'']\<rparr>) = 90670 \<and>
   recomputeTotal_spec contentGenerated (initialState\<lparr>isSystemRunning := False,
      pendingPreviews := [preview_2, preview_3],
      console := [''Approved content: preview_1'']\<rparr>) = 65 \<and>
   recomputeTotal_spec publishedToday (initialState\<lparr>isSystemRunning := False,
      pendingPreviews := [preview_2, preview_3],
      console := [''Approved content: preview_1'']\<rparr>) = 17"
  using stats_projection [OF reachable_example] reachable_example
  by (simp add: initialState_def initialStats_def)

subsection \<open>C4: what approving changes\<close>

text \<open>
  C4: for every id present in the pending list, \<open>approveContent(id)\<close> returns, the id is
  no longer in the list, the list is the old one without the items of that id (the other
  items unchanged and in their order, a subsequence of the old list), exactly one item
  shorter when the ids are distinct, and the channels, the statistics, the run flag and
  the active tab are unchanged.
\<close>

theorem approveContent_removes:
  assumes "contentId \<in> item_id ` set (pendingPreviews s)"
  shows "\<exists>s'. approveContent contentId s = Inr (Undefined, s')
           \<and> contentId \<notin> item_id ` set (pendingPreviews s')
           \<and> filter (\<lambda>item. item_id item \<noteq> contentId) (pendingPreviews s) = pendingPreviews s'
           \<and> subseq (pendingPreviews s') (pendingPreviews s)
           \<and> (distinct (map item_id (pendingPreviews s))
                \<longrightarrow> Suc (length (pendingPreviews s')) = length (pendingPreviews s))
           \<and> channels s' = channels s \<and> systemStats s' = systemStats s
           \<and> isSystemRunning s' = isSystemRunning s \<and> activeTab s' = activeTab s"
  using assms by (auto simp: approveContent_def length_filter_distinct_id)

theorem approveContent_removes_witness:
  "''preview_2'' \<in> item_id ` set (pendingPreviews mountedState) \<and>
   distinct (map item_id (pendingPreviews mountedState)) \<and>
   approveContent ''preview_2'' mountedState =
     Inr (Undefined, mountedState\<lparr>pendingPreviews := [preview_1, preview_3],
            console := [''Approved content: preview_2'']\<rparr>)"
proof -
  have h: "''preview_2'' \<in> item_id ` set (pendingPreviews mountedState)"
    by (simp add: mountedState_def preview_defs)
  from approveContent_removes [OF h] h show ?thesis
    by (simp add: approveContent_def mountedState_def initialState_def preview_defs)
qed

subsection \<open>C5: toggling the system\<close>

text \<open>
  C5, as stated: \<open>toggleSystem\<close> returns the new run state to the caller. The handler
  has no \<open>return\<close>: in the initial state it returns \<open>undefined\<close>, not the new flag.
\<close>

theorem toggleSystem_return_counterexample:
  "fst (projr (toggleSystem initialState)) = Undefined \<and>
   fst (projr (toggleSystem initialState))
     \<noteq> Boolean (isSystemRunning (snd (projr (toggleSystem initialState))))"
  by (simp add: toggleSystem_def)

text \<open>
  C5, amended: for every state, \<open>toggleSystem\<close> stores the opposite run flag, changes
  nothing else, and returns \<open>undefined\<close> to the caller; a second call stores the first
  flag again.
\<close>

theorem toggleSystem_flips:
  "\<exists>s'. toggleSystem s = Inr (Undefined, s')
       \<and> isSystemRunning s' \<noteq> isSystemRunning s
       \<and> pendingPreviews s' = pendingPreviews s \<and> channels s' = channels s
       \<and> systemStats s' = systemStats s \<and> activeTab s' = activeTab s
       \<and> console s' = console s
       \<and> toggleSystem s' = Inr (Undefined, s)"
  by (simp add: toggleSystem_def)

subsection \<open>C6: the order of the pending list\<close>

text \<open>
  C6: in every reachable state the pending list is in ascending order of the scheduled
  time, ties broken by generation timestamp and then by identifier. The items of the
  source have no generation timestamp, so it is any function \<open>generatedAt\<close> of the item;
  the scheduled times of a reachable list are strictly ascending, so no tie arises.
\<close>

theorem pending_ordered:
  fixes generatedAt :: "preview \<Rightarrow> 'g::linorder"
  assumes "reachable s"
  shows "sorted_wrt
           (\<lambda>a b. (scheduledTime a, generatedAt a, item_id a)
                    \<le> (scheduledTime b, generatedAt b, item_id b))
           (pendingPreviews s)"
proof (rule sorted_wrt_mono_rel [OF _ reachable_strictly_ascending [OF assms]])
  fix a b :: preview
  assume "scheduledTime a < scheduledTime b"
  then show "(scheduledTime a, generatedAt a, item_id a)
               \<le> (scheduledTime b, generatedAt b, item_id b)"
    by (simp add: less_eq_prod_def)
qed

theorem pending_ordered_witness:
  "reachable mountedState \<and>
   pendingPreviews mountedState = [preview_1, preview_2, preview_3] \<and>
   sorted_wrt
     (\<lambda>a b. (scheduledTime a, title a, item_id a) \<le> (scheduledTime b, title b, item_id b))
     (pendingPreviews mountedState)"
  using pending_ordered [OF reachable_mounted, of title] reachable_mounted
  by (simp add: mountedState_def)

subsection \<open>C7: every item's channel exists\<close>

lemma loaded_channels_exist:
  "item \<in> {preview_1, preview_2, preview_3} \<Longrightarrow>
     \<exists>c \<in> set initialChannels. findChannel initialChannels (channelId item) = Some c
        \<and> channel_id c = channelId item"
  by (auto simp: findChannel_def preview_defs channel_defs)

text \<open>
  C7: in the initial state and after every sequence of operations, the lookup of the
  \<open>channelId\<close> of every content item finds a channel of the channel list, and that
  channel has this identifier.
\<close>

theorem channelId_resolves:
  assumes "reachable s"
  shows "\<forall>item \<in> set (pendingPreviews s).
           \<exists>c \<in> set (channels s). findChannel (channels s) (channelId item) = Some c
              \<and> channel_id c = channelId item"
  using reachable_pending_subset [OF assms] loaded_channels_exist
  by (auto simp: reachable_channels [OF assms])

theorem channelId_resolves_witness:
  "reachable mountedState \<and>
   preview_2 \<in> set (pendingPreviews mountedState) \<and>
   findChannel (channels mountedState) (channelId preview_2) = Some ai_chef \<and>
   channel_id ai_chef = channelId preview_2"
proof -
  have m: "preview_2 \<in> set (pendingPreviews mountedState)"
    by (simp add: mountedState_def)
  from channelId_resolves [OF reachable_mounted] m
  obtain c where c: "findChannel (channels mountedState) (channelId preview_2) = Some c"
    and "channel_id c = channelId preview_2"
    by blast
  have "findChannel (channels mountedState) (channelId preview_2) = Some ai_chef"
    by (simp add: findChannel_def mountedState_def initialState_def preview_defs channel_defs)
  with c have "c = ai_chef" by simp
  with c \<open>channel_id c = channelId preview_2\<close> reachable_mounted m show ?thesis by simp
qed

subsection \<open>C9: approving and rejecting store the same state\<close>

text \<open>
  C9: for every id and every state, \<open>approveContent(id)\<close> and \<open>rejectContent(id)\<close> both
  return and leave the same pending list (and the same tab, run flag, channels and
  statistics); the two resulting states differ only in the line written to the console.
\<close>

theorem approve_reject_same_state:
  "\<exists>sa sr. approveContent contentId s = Inr (Undefined, sa)
       \<and> rejectContent contentId s = Inr (Undefined, sr)
       \<and> pendingPreviews sa = pendingPreviews sr
       \<and> activeTab sa = activeTab sr \<and> isSystemRunning sa = isSystemRunning sr
       \<and> channels sa = channels sr \<and> systemStats sa = systemStats sr
       \<and> sr = sa\<lparr>console := console s @ [''Rejected content: '' @ contentId]\<rparr>"
  by (simp add: approveContent_def rejectContent_def)

subsection \<open>C10: an absent id\<close>

text \<open>
  C10: for every id that is not in the pending list (an id removed by an earlier call is
  such an id), \<open>approveContent(id)\<close> and \<open>rejectContent(id)\<close> return \<open>undefined\<close>
  without error and leave the pending list, and every other part of the state but the
  console, exactly as it was.
\<close>

theorem absent_id_noop:
  assumes "contentId \<notin> item_id ` set (pendingPreviews s)"
  shows "approveContent contentId s =
           Inr (Undefined, s\<lparr>console := console s @ [''Approved content: '' @ contentId]\<rparr>)
       \<and> rejectContent contentId s =
           Inr (Undefined, s\<lparr>console := console s @ [''Rejected content: '' @ contentId]\<rparr>)"
  using filter_absent [OF assms] by (simp add: approveContent_def rejectContent_def)

theorem absent_id_noop_witness:
  "approveContent ''preview_2'' mountedState =
     Inr (Undefined, mountedState\<lparr>pendingPreviews := [preview_1, preview_3],
            console := [''Approved content: preview_2'']\<rparr>) \<and>
   ''preview_2'' \<notin> item_id ` set [preview_1, preview_3] \<and>
   approveContent ''preview_2''
       (mountedState\<lparr>pendingPreviews := [preview_1, preview_3],
          console := [''Approved content: preview_2'']\<rparr>) =
     Inr (Undefined, mountedState\<lparr>pendingPreviews := [preview_1, preview_3],
            console := [''Approved content: preview_2'', ''Approved content: preview_2'']\<rparr>)"
proof -
  let ?s1 = "mountedState\<lparr>pendingPreviews := [preview_1, preview_3],
          console := [''Approved content: preview_2'']\<rparr>"
  have a: "approveContent ''preview_2'' mountedState = Inr (Undefined, ?s1)"
    by (simp add: approveContent_def mountedState_def initialState_def preview_defs)
  have h: "''preview_2'' \<notin> item_id ` set (pendingPreviews ?s1)"
    by (simp add: preview_defs)
  from absent_id_noop [OF h] a h show ?thesis by simp
qed

end
